theory Spec2Isabelle
  imports Main "HOL-Library.AList" "HOL-Library.Multiset" "HOL-Library.Option_ord"
    "HOL-Library.Sublist"
begin

section \<open>Values, rows and the users table\<close>

text \<open>
  The account service (\<^verbatim>\<open>Hero-Backend/src/services/userService.js\<close>) works on one table of
  user rows through an object-relational mapper. A JavaScript value that the service stores
  or compares is \<open>Null\<close>, a boolean, a number holding an integer, a string or a
  \<^verbatim>\<open>Date\<close> (milliseconds since the epoch).
\<close>

datatype jsval = Null | Bool bool | Num int | Str string | Date int

text \<open>
  Errors are values. \<open>Error msg\<close> is \<^verbatim>\<open>new Error(msg)\<close> thrown by the service itself;
  the other three are the failures of the data store (schema validation, a unique
  constraint, a rejected query). The failure of the e-mail dispatcher is whatever error
  value the dispatcher hands back.
\<close>

datatype error = Error string | ValidationError | UniqueConstraintError | DatabaseError

text \<open>
  A stored row maps attribute names to values. An object literal of the source
  (\<^verbatim>\<open>userData\<close>, the value object of an update) is an association list in key order.
  The table is the list of its rows in insertion order.
\<close>

type_synonym row = "string \<rightharpoonup> jsval"
type_synonym object = "(string \<times> jsval) list"
type_synonym table = "row list"

text \<open>
  Modelled from the spec: the schema \<^verbatim>\<open>models/userModel\<close> is not part of the source. The
  attributes are those of the spec's data model (section 3), under the names the service uses
  for them: \<^verbatim>\<open>id\<close>, \<^verbatim>\<open>email\<close>, \<^verbatim>\<open>first_name\<close>, \<^verbatim>\<open>last_name\<close>, \<^verbatim>\<open>google_id\<close>, \<^verbatim>\<open>role\<close>,
  \<^verbatim>\<open>email_confirmed\<close>, the two one-time-code attributes, \<^verbatim>\<open>refresh_token\<close> (the name in the
  exclusion list of \<^verbatim>\<open>getAllUsers\<close>) and \<^verbatim>\<open>created_at\<close>.
\<close>

definition tableAttributes :: "string list" where
  "tableAttributes =
     [''id'', ''email'', ''first_name'', ''last_name'', ''password'', ''google_id'', ''role'',
      ''email_confirmed'', ''email_confirmation_otp'', ''email_confirmation_otp_expires'',
      ''refresh_token'', ''created_at'']"

definition attr :: "row \<Rightarrow> string \<Rightarrow> jsval" where
  "attr r k = (case r k of Some v \<Rightarrow> v | None \<Rightarrow> Null)"

text \<open>
  The mapper writes only the keys of a value object that are attributes of the model
  (the intersection of \<^verbatim>\<open>Object.keys(values)\<close> with the table attributes); other keys
  are dropped silently.
\<close>

definition known :: "object \<Rightarrow> object" where
  "known vs = filter (\<lambda>kv. fst kv \<in> set tableAttributes) vs"

text \<open>\<^verbatim>\<open>Op.gt\<close> on a timestamp column: a \<open>NULL\<close> column is greater than nothing.\<close>

definition op_gt :: "jsval \<Rightarrow> jsval \<Rightarrow> bool" where
  "op_gt v w = (case v of Date a \<Rightarrow> (case w of Date b \<Rightarrow> b < a | _ \<Rightarrow> False) | _ \<Rightarrow> False)"

section \<open>The mapper's operations on the table\<close>

text \<open>\<^verbatim>\<open>UserModel.findOne({where})\<close>: the first row that satisfies the condition, or null.\<close>

definition UserModel_findOne :: "table \<Rightarrow> (row \<Rightarrow> bool) \<Rightarrow> row option" where
  "UserModel_findOne tbl w = find w tbl"

text \<open>\<^verbatim>\<open>UserModel.findByPk(id)\<close>: null for a null key, else the row with that primary key.\<close>

definition UserModel_findByPk :: "table \<Rightarrow> jsval \<Rightarrow> row option" where
  "UserModel_findByPk tbl i = (if i = Null then None else find (\<lambda>r. attr r ''id'' = i) tbl)"

text \<open>
  \<^verbatim>\<open>UserModel.update(values, {where})\<close>: writes the known keys of \<open>values\<close> into every row
  that satisfies the condition and answers the number of rows affected; with no known key
  there is nothing to write and the answer is 0.
\<close>

definition UserModel_update :: "table \<Rightarrow> object \<Rightarrow> (row \<Rightarrow> bool) \<Rightarrow> nat \<times> table" where
  "UserModel_update tbl vs w =
     (if known vs = [] then (0, tbl)
      else (length (filter w tbl), map (\<lambda>r. if w r then r ++ map_of (known vs) else r) tbl))"

text \<open>\<^verbatim>\<open>UserModel.destroy({where})\<close>: deletes the rows that satisfy the condition and answers
  how many they were.\<close>

definition UserModel_destroy :: "table \<Rightarrow> (row \<Rightarrow> bool) \<Rightarrow> nat \<times> table" where
  "UserModel_destroy tbl w = (length (filter w tbl), filter (\<lambda>r. \<not> w r) tbl)"

text \<open>
  \<^verbatim>\<open>user.save()\<close> on an instance read from the table: an update of the changed attributes,
  keyed by the instance's primary key.
\<close>

definition instance_save :: "table \<Rightarrow> row \<Rightarrow> string list \<Rightarrow> table" where
  "instance_save tbl u changed =
     map (\<lambda>r. if attr r ''id'' = attr u ''id'' then r ++ (u |` set changed) else r) tbl"

section \<open>The service operations\<close>

text \<open>
  Every operation takes the table and returns its result (an error or a value) together
  with the table it leaves behind. \<open>now\<close> is the clock reading of \<^verbatim>\<open>new Date()\<close>
  or \<^verbatim>\<open>Date.now()\<close> in milliseconds.
\<close>

definition verifyEmailOTP :: "table \<Rightarrow> int \<Rightarrow> jsval \<Rightarrow> jsval \<Rightarrow> (error + row) \<times> table" where
  "verifyEmailOTP tbl now userId otp =
     (case UserModel_findOne tbl
             (\<lambda>r. attr r ''id'' = userId \<and>
                  attr r ''email_confirmation_otp'' = otp \<and>
                  op_gt (attr r ''email_confirmation_otp_expires'') (Date now)) of
        None \<Rightarrow> (Inl (Error ''Invalid or expired OTP''), tbl)
      | Some user \<Rightarrow>
          (let user1 = user(''email_confirmed'' \<mapsto> Bool True);
               user2 = user1(''email_confirmation_otp'' \<mapsto> Null);
               user3 = user2(''email_confirmation_otp_expires'' \<mapsto> Null)
           in (Inr user3,
               instance_save tbl user3
                 [''email_confirmed'', ''email_confirmation_otp'',
                  ''email_confirmation_otp_expires''])))"

text \<open>
  The write of a successful verification, as a function on rows: the three assignments of
  \<open>verifyEmailOTP\<close> to the instance it found.
\<close>

definition confirm :: "row \<Rightarrow> row" where
  "confirm r = r(''email_confirmed'' \<mapsto> Bool True, ''email_confirmation_otp'' \<mapsto> Null,
                ''email_confirmation_otp_expires'' \<mapsto> Null)"

definition deleteUser :: "table \<Rightarrow> jsval \<Rightarrow> (error + nat) \<times> table" where
  "deleteUser tbl i =
     (case UserModel_destroy tbl (\<lambda>r. attr r ''id'' = i) of (n, tbl') \<Rightarrow> (Inr n, tbl'))"

text \<open>\<^verbatim>\<open>getUserById(id)\<close> is \<^verbatim>\<open>findByPk\<close>; it reads and writes nothing.\<close>

definition getUserById :: "table \<Rightarrow> jsval \<Rightarrow> row option" where
  "getUserById tbl i = UserModel_findByPk tbl i"

text \<open>
  The e-mail dispatcher \<^verbatim>\<open>sendConfirmationEmail(email, id)\<close> is a collaborator outside the
  source: a parameter that answers the one-time code it generated, or fails.
\<close>

type_synonym dispatcher = "jsval \<Rightarrow> jsval \<Rightarrow> error + string"

text \<open>
  \<open>updateUserOTP\<close>: the \<^verbatim>\<open>try\<close> block logs and re-throws, so every error leaves as it
  arose. The returned value is the instance read before the update.
\<close>

definition updateUserOTP :: "table \<Rightarrow> dispatcher \<Rightarrow> int \<Rightarrow> jsval \<Rightarrow> (error + row) \<times> table" where
  "updateUserOTP tbl send now userId =
     (case getUserById tbl userId of
        None \<Rightarrow> (Inl (Error ''User not found''), tbl)
      | Some user \<Rightarrow>
          (case send (attr user ''email'') (attr user ''id'') of
             Inl e \<Rightarrow> (Inl e, tbl)
           | Inr otp \<Rightarrow>
               (case UserModel_update tbl
                       [(''email_confirmation_otp'', Str otp),
                        (''email_confirmation_otp_expires'', Date (now + 15 * 60 * 1000))]
                       (\<lambda>r. attr r ''id'' = userId) of
                  (n, tbl') \<Rightarrow> (Inr user, tbl'))))"

text \<open>
  Modelled from the spec: \<^verbatim>\<open>UserModel.create\<close> depends on the schema, which is not part of
  the source. Following the spec (sections 3, 4.1 and 7), a new row takes the known keys of
  the data it is given over these defaults: not confirmed, no one-time code, no refresh
  token, created at the time of the insert. The data store assigns the identifier
  \<open>gen_id\<close>. A row without an e-mail address is a validation error; an identifier or an
  e-mail address already in the table is a uniqueness violation; a failed insert writes
  nothing.
\<close>

definition defaults :: "int \<Rightarrow> row" where
  "defaults t =
     map_of [(''id'', Null), (''email'', Null), (''first_name'', Null), (''last_name'', Null),
             (''password'', Null), (''google_id'', Null), (''role'', Null),
             (''email_confirmed'', Bool False), (''email_confirmation_otp'', Null),
             (''email_confirmation_otp_expires'', Null), (''refresh_token'', Null),
             (''created_at'', Date t)]"

definition new_row :: "jsval \<Rightarrow> int \<Rightarrow> object \<Rightarrow> row" where
  "new_row gen_id t vs = (defaults t ++ map_of (known vs))(''id'' \<mapsto> gen_id)"

definition UserModel_create :: "table \<Rightarrow> jsval \<Rightarrow> int \<Rightarrow> object \<Rightarrow> (error + row) \<times> table" where
  "UserModel_create tbl gen_id t vs =
     (let r = new_row gen_id t vs in
      if attr r ''email'' = Null then (Inl ValidationError, tbl)
      else if list_ex (\<lambda>r'. attr r' ''id'' = attr r ''id'' \<or> attr r' ''email'' = attr r ''email'') tbl
      then (Inl UniqueConstraintError, tbl)
      else (Inr r, tbl @ [r]))"

text \<open>
  \<open>createUser\<close>: \<open>t\<close> is the time of the insert, \<open>now\<close> the later reading of
  \<^verbatim>\<open>Date.now()\<close> when the code is stored. Nothing is caught: an error of the insert or of the
  dispatcher leaves the operation as it is, with the table as it stands at that point.
\<close>

definition createUser ::
  "table \<Rightarrow> dispatcher \<Rightarrow> jsval \<Rightarrow> int \<Rightarrow> int \<Rightarrow> object \<Rightarrow> (error + row) \<times> table" where
  "createUser tbl send gen_id t now userData =
     (case UserModel_create tbl gen_id t userData of
        (Inl e, tbl1) \<Rightarrow> (Inl e, tbl1)
      | (Inr user, tbl1) \<Rightarrow>
          (case send (attr user ''email'') (attr user ''id'') of
             Inl e \<Rightarrow> (Inl e, tbl1)
           | Inr otp \<Rightarrow>
               (case UserModel_update tbl1
                       [(''email_confirmation_otp'', Str otp),
                        (''email_confirmation_otp_expires'', Date (now + 15 * 60 * 1000))]
                       (\<lambda>r. attr r ''id'' = attr user ''id'') of
                  (n, tbl2) \<Rightarrow> (Inr user, tbl2))))"

text \<open>\<open>createGoogleUser\<close>: the spread \<^verbatim>\<open>{...userData, email_confirmed: true}\<close> replaces
  the key where \<open>userData\<close> has it and appends it otherwise.\<close>

definition createGoogleUser :: "table \<Rightarrow> jsval \<Rightarrow> int \<Rightarrow> object \<Rightarrow> (error + row) \<times> table" where
  "createGoogleUser tbl gen_id t userData =
     UserModel_create tbl gen_id t (AList.update ''email_confirmed'' (Bool True) userData)"

definition updateUser :: "table \<Rightarrow> jsval \<Rightarrow> object \<Rightarrow> (error + row option) \<times> table" where
  "updateUser tbl i userData =
     (case UserModel_update tbl userData (\<lambda>r. attr r ''id'' = i) of
        (n, tbl') \<Rightarrow> (Inr (getUserById tbl' i), tbl'))"

definition revokeRefreshToken :: "table \<Rightarrow> jsval \<Rightarrow> (error + nat) \<times> table" where
  "revokeRefreshToken tbl userId =
     (case UserModel_update tbl [(''refreshToken'', Null)] (\<lambda>r. attr r ''id'' = userId) of
        (n, tbl') \<Rightarrow> (Inr n, tbl'))"

section \<open>Listing users\<close>

subsection \<open>Numbers and numeric strings\<close>

text \<open>
  \<open>limit\<close> and \<open>offset\<close> reach \<open>getAllUsers\<close> as numbers (the defaults 10 and 0) or
  as strings (values of a query string; the source applies \<^verbatim>\<open>parseInt\<close> to both). A number
  is modelled by the integer it holds, exactly.
\<close>

datatype numarg = N int | S string

definition is_space :: "char \<Rightarrow> bool" where
  "is_space c = ((of_char c :: nat) \<in> {9, 10, 11, 12, 13, 32})"

definition is_digit :: "char \<Rightarrow> bool" where
  "is_digit c = (48 \<le> (of_char c :: nat) \<and> (of_char c :: nat) \<le> 57)"

definition is_hex_digit :: "char \<Rightarrow> bool" where
  "is_hex_digit c =
     (is_digit c \<or> (65 \<le> (of_char c :: nat) \<and> (of_char c :: nat) \<le> 70)
                \<or> (97 \<le> (of_char c :: nat) \<and> (of_char c :: nat) \<le> 102))"

definition digit_value :: "char \<Rightarrow> nat" where
  "digit_value c =
     (let n = (of_char c :: nat) in
      if n \<le> 57 then n - 48 else if n \<le> 70 then n - 55 else n - 87)"

definition radix_value :: "nat \<Rightarrow> string \<Rightarrow> nat" where
  "radix_value b ds = foldl (\<lambda>a c. b * a + digit_value c) 0 ds"

definition hex_prefixed :: "string \<Rightarrow> bool" where
  "hex_prefixed s = (take 2 s = ''0x'' \<or> take 2 s = ''0X'')"

text \<open>
  \<^verbatim>\<open>parseInt(string)\<close> without a radix: leading white space is skipped, a sign is read, a
  prefix \<^verbatim>\<open>0x\<close> selects radix 16, and the longest prefix of digits is the value; with no
  digit the result is \<^verbatim>\<open>NaN\<close>, here \<open>None\<close>.
\<close>

definition parseInt_string :: "string \<Rightarrow> int option" where
  "parseInt_string s =
     (let s1 = dropWhile is_space s;
          sign = (if take 1 s1 = ''-'' then - 1 else (1 :: int));
          s2 = (if take 1 s1 = ''-'' \<or> take 1 s1 = ''+'' then drop 1 s1 else s1);
          z = (if hex_prefixed s2 then takeWhile is_hex_digit (drop 2 s2)
               else takeWhile is_digit s2)
      in if z = [] then None
         else Some (sign * int (radix_value (if hex_prefixed s2 then 16 else 10) z)))"

definition parseInt :: "numarg \<Rightarrow> int option" where
  "parseInt v = (case v of N n \<Rightarrow> Some n | S s \<Rightarrow> parseInt_string s)"

text \<open>The decimal digits of a natural number: \<^verbatim>\<open>String(n)\<close> for an array length.\<close>

fun show_nat :: "nat \<Rightarrow> string" where
  "show_nat n =
     (if n < 10 then [char_of (48 + n)] else show_nat (n div 10) @ [char_of (48 + n mod 10)])"

declare show_nat.simps [simp del]

text \<open>
  \<^verbatim>\<open>offset + rows.length\<close>: the sum of two numbers, but the concatenation of the strings when
  \<open>offset\<close> is a string.
\<close>

definition js_plus :: "numarg \<Rightarrow> nat \<Rightarrow> numarg" where
  "js_plus v n = (case v of N a \<Rightarrow> N (a + int n) | S s \<Rightarrow> S (s @ show_nat n))"

text \<open>
  The numeric value of a string in a comparison with a number: white space is trimmed at
  both ends, the empty string is 0, and the whole rest must be a numeric literal. Literals
  are read here in signed decimal and in \<^verbatim>\<open>0x\<close> hexadecimal notation; a string in another
  notation (a fraction, an exponent, a binary or octal literal) is taken as not a number,
  which only approximates JavaScript for such strings.
\<close>

definition to_number :: "string \<Rightarrow> int option" where
  "to_number s =
     (let t = rev (dropWhile is_space (rev (dropWhile is_space s)));
          body = (if take 1 t = ''-'' \<or> take 1 t = ''+'' then drop 1 t else t)
      in if t = [] then Some 0
         else if hex_prefixed t then
           (if drop 2 t \<noteq> [] \<and> list_all is_hex_digit (drop 2 t)
            then Some (int (radix_value 16 (drop 2 t))) else None)
         else if body \<noteq> [] \<and> list_all is_digit body
           then Some ((if take 1 t = ''-'' then - 1 else 1) * int (radix_value 10 body))
         else None)"

text \<open>\<^verbatim>\<open>x < count\<close> with a number on the right; a comparison with \<^verbatim>\<open>NaN\<close> is false.\<close>

definition js_less :: "numarg \<Rightarrow> nat \<Rightarrow> bool" where
  "js_less v c =
     (case v of N a \<Rightarrow> a < int c
      | S s \<Rightarrow> (case to_number s of None \<Rightarrow> False | Some a \<Rightarrow> a < int c))"

subsection \<open>Pattern matching\<close>

text \<open>
  \<^verbatim>\<open>LIKE\<close>: in the pattern \<^verbatim>\<open>%\<close> matches any sequence of characters, \<^verbatim>\<open>_\<close> any one
  character, and a backslash takes the next character literally. (A pattern that ends in a
  lone backslash is an error of the data store; the patterns of \<open>getAllUsers\<close> end in
  \<^verbatim>\<open>%\<close>.)
\<close>

fun like :: "string \<Rightarrow> string \<Rightarrow> bool" where
  "like [] t = (t = [])"
| "like (p # ps) t =
     (if p = CHR ''%'' then
        (like ps t \<or> (case t of [] \<Rightarrow> False | c # cs \<Rightarrow> like (p # ps) cs))
      else if p = CHR ''_'' then
        (case t of [] \<Rightarrow> False | c # cs \<Rightarrow> like ps cs)
      else if p = CHR 0x5C then
        (case ps of [] \<Rightarrow> False
         | q # qs \<Rightarrow> (case t of [] \<Rightarrow> False | c # cs \<Rightarrow> c = q \<and> like qs cs))
      else (case t of [] \<Rightarrow> False | c # cs \<Rightarrow> c = p \<and> like ps cs))"

text \<open>\<^verbatim>\<open>Op.iLike\<close> compares without regard to case (of the letters A to Z); a \<open>NULL\<close>
  column matches no pattern.\<close>

definition lower :: "char \<Rightarrow> char" where
  "lower c = (if 65 \<le> (of_char c :: nat) \<and> (of_char c :: nat) \<le> 90
              then char_of ((of_char c :: nat) + 32) else c)"

definition op_iLike :: "jsval \<Rightarrow> string \<Rightarrow> bool" where
  "op_iLike v pat = (case v of Str s \<Rightarrow> like (map lower pat) (map lower s) | _ \<Rightarrow> False)"

subsection \<open>The query\<close>

text \<open>
  \<^verbatim>\<open>ORDER BY created_at DESC\<close>: later timestamps first, rows without a timestamp before
  all others; rows with equal timestamps keep their order in the table.
\<close>

definition created_at :: "row \<Rightarrow> int option" where
  "created_at r = (case attr r ''created_at'' of Date t \<Rightarrow> Some t | _ \<Rightarrow> None)"

definition order_created_at_desc :: "row list \<Rightarrow> row list" where
  "order_created_at_desc rs = sort_key (\<lambda>r. map_option uminus (created_at r)) rs"

text \<open>
  \<^verbatim>\<open>UserModel.findAndCountAll\<close>: \<open>count\<close> is the number of rows that satisfy the
  condition, \<open>rows\<close> the page of at most \<open>limit\<close> of them from position \<open>offset\<close>
  in the order above, each without the excluded attributes. The data store rejects a
  negative limit or offset.
\<close>

definition UserModel_findAndCountAll ::
  "table \<Rightarrow> (row \<Rightarrow> bool) \<Rightarrow> int \<Rightarrow> int \<Rightarrow> string list \<Rightarrow> error + (nat \<times> row list)" where
  "UserModel_findAndCountAll tbl w lim off exclude =
     (if lim < 0 \<or> off < 0 then Inl DatabaseError
      else Inr (length (filter w tbl),
                map (\<lambda>r. r |` (set tableAttributes - set exclude))
                  (take (nat lim) (drop (nat off) (order_created_at_desc (filter w tbl))))))"

text \<open>
  The argument object of \<open>getAllUsers\<close>; \<open>None\<close> is a property that is absent (for
  \<open>role\<close> also \<^verbatim>\<open>null\<close>), which takes the default of the destructuring.
\<close>

record list_query =
  limit :: "numarg option"
  offset :: "numarg option"
  search :: "string option"
  role :: "string option"

record listing =
  users :: "row list"
  totalCount :: nat
  nextOffset :: "int option"

text \<open>The where-clause: each filter is added only for a truthy (non-empty) argument.\<close>

definition whereClause :: "string \<Rightarrow> string option \<Rightarrow> row \<Rightarrow> bool" where
  "whereClause search' role' r =
     ((if search' \<noteq> [] then
         op_iLike (attr r ''first_name'') (''%'' @ search' @ ''%'') \<or>
         op_iLike (attr r ''last_name'') (''%'' @ search' @ ''%'') \<or>
         op_iLike (attr r ''email'') (''%'' @ search' @ ''%'')
       else True) \<and>
      (case role' of None \<Rightarrow> True
       | Some ro \<Rightarrow> if ro \<noteq> [] then attr r ''role'' = Str ro else True))"

text \<open>
  \<open>getAllUsers\<close> reads only. A limit or offset that \<^verbatim>\<open>parseInt\<close> turns into \<^verbatim>\<open>NaN\<close> is
  rejected by the data store like a negative one.
\<close>

definition getAllUsers :: "table \<Rightarrow> list_query \<Rightarrow> error + listing" where
  "getAllUsers tbl q =
     (let limit' = (case limit q of None \<Rightarrow> N 10 | Some v \<Rightarrow> v);
          offset' = (case offset q of None \<Rightarrow> N 0 | Some v \<Rightarrow> v);
          search' = (case search q of None \<Rightarrow> [] | Some s \<Rightarrow> s);
          role' = role q
      in case parseInt limit' of None \<Rightarrow> Inl DatabaseError
         | Some lim \<Rightarrow>
        (case parseInt offset' of None \<Rightarrow> Inl DatabaseError
         | Some off \<Rightarrow>
        (case UserModel_findAndCountAll tbl (whereClause search' role') lim off
                [''refresh_token'', ''email_confirmation_otp'',
                 ''email_confirmation_otp_expires''] of
           Inl e \<Rightarrow> Inl e
         | Inr (count', rows) \<Rightarrow>
             Inr \<lparr>users = rows, totalCount = count',
                  nextOffset = (if js_less (js_plus offset' (length rows)) count'
                                then Some (off + lim) else None)\<rparr>)))"

text \<open>A row as a listing shows it: without the three excluded attributes.\<close>

definition project :: "row \<Rightarrow> row" where
  "project r = r |` (set tableAttributes -
      set [''refresh_token'', ''email_confirmation_otp'', ''email_confirmation_otp_expires''])"

text \<open>
  The words of the claims about listings. A search term is \<open>plain\<close> when it has none of
  the characters that a \<^verbatim>\<open>LIKE\<close> pattern reads specially. \<open>ci_contains s v\<close>: the
  term \<open>s\<close> occurs in the string \<open>v\<close> as a substring, letter case aside.
  \<open>newest_first a b\<close>: row \<open>a\<close> may stand before row \<open>b\<close> in descending order
  of creation time.
\<close>

definition plain :: "string \<Rightarrow> bool" where
  "plain s = list_all (\<lambda>c. c \<noteq> CHR ''%'' \<and> c \<noteq> CHR ''_'' \<and> c \<noteq> CHR 0x5C) s"

definition ci_contains :: "string \<Rightarrow> jsval \<Rightarrow> bool" where
  "ci_contains s v = (case v of Str t \<Rightarrow> sublist (map lower s) (map lower t) | _ \<Rightarrow> False)"

definition newest_first :: "row \<Rightarrow> row \<Rightarrow> bool" where
  "newest_first a b = (\<forall>x y. created_at a = Some x \<and> created_at b = Some y \<longrightarrow> y \<le> x)"

section \<open>The one-time-code invariant\<close>

text \<open>
  The invariant of the data model on one row: the code and its expiry are both null or both
  set, and a confirmed account has neither. \<open>otp_paired\<close> is its first half alone.
  A value object is \<open>otp_neutral\<close> when it mentions none of the three attributes the
  invariant reads.
\<close>

definition otp_invariant :: "row \<Rightarrow> bool" where
  "otp_invariant r =
     ((attr r ''email_confirmation_otp'' = Null \<longleftrightarrow> attr r ''email_confirmation_otp_expires'' = Null) \<and>
      (attr r ''email_confirmed'' = Bool True \<longrightarrow>
         attr r ''email_confirmation_otp'' = Null \<and> attr r ''email_confirmation_otp_expires'' = Null))"

definition otp_paired :: "row \<Rightarrow> bool" where
  "otp_paired r =
     (attr r ''email_confirmation_otp'' = Null \<longleftrightarrow> attr r ''email_confirmation_otp_expires'' = Null)"

definition otp_neutral :: "object \<Rightarrow> bool" where
  "otp_neutral vs =
     list_all (\<lambda>k. map_of vs k = None)
       [''email_confirmed'', ''email_confirmation_otp'', ''email_confirmation_otp_expires'']"

section \<open>Sample data\<close>

text \<open>A table with one unconfirmed account whose code \<open>123456\<close> expires at time 1000.\<close>

definition pending_user :: row where
  "pending_user =
     map_of [(''id'', Num 1), (''email'', Str ''a@b.com''), (''first_name'', Str ''Ann''),
             (''last_name'', Str ''Lee''), (''password'', Str ''h''), (''google_id'', Null),
             (''role'', Str ''user''), (''email_confirmed'', Bool False),
             (''email_confirmation_otp'', Str ''123456''),
             (''email_confirmation_otp_expires'', Date 1000),
             (''refresh_token'', Str ''tok''), (''created_at'', Date 100)]"

text \<open>A dispatcher that always succeeds with the code \<open>654321\<close>.\<close>

definition fixed_code :: dispatcher where
  "fixed_code email uid = Inr ''654321''"

text \<open>A registration: an e-mail address, a name and a password.\<close>

definition registration :: object where
  "registration = [(''email'', Str ''c@d.com''), (''first_name'', Str ''Cy''), (''password'', Str ''pw'')]"

text \<open>A registration that presets \<^verbatim>\<open>email_confirmed\<close>.\<close>

definition preset_registration :: object where
  "preset_registration = [(''email'', Str ''z@d.com''), (''email_confirmed'', Bool True)]"

text \<open>The table after one federated sign-up into the empty table.\<close>

definition google_table :: table where
  "google_table =
     snd (createGoogleUser [] (Num 2) 100 [(''email'', Str ''g@b.com''), (''google_id'', Str ''g-1'')])"

text \<open>Two more accounts, created later, and two listing queries: the defaults, and the
  second page of size one with both numbers given as strings.\<close>

definition second_user :: row where
  "second_user = pending_user(''id'' \<mapsto> Num 2, ''email'' \<mapsto> Str ''b@b.com'', ''created_at'' \<mapsto> Date 200)"

definition third_user :: row where
  "third_user = pending_user(''id'' \<mapsto> Num 3, ''email'' \<mapsto> Str ''c@b.com'', ''role'' \<mapsto> Str ''admin'',
                             ''created_at'' \<mapsto> Date 300)"

definition second_page :: list_query where
  "second_page = \<lparr>limit = Some (S ''1''), offset = Some (S ''1''), search = None, role = None\<rparr>"

definition default_query :: list_query where
  "default_query = \<lparr>limit = None, offset = None, search = None, role = None\<rparr>"

text \<open>Listing queries with a role, a search term, an empty role and the search term
  \<^verbatim>\<open>_\<close>.\<close>

definition admin_query :: list_query where
  "admin_query = \<lparr>limit = None, offset = None, search = None, role = Some ''admin''\<rparr>"

definition search_query :: list_query where
  "search_query = \<lparr>limit = None, offset = None, search = Some ''C@B'', role = None\<rparr>"

definition empty_role_query :: list_query where
  "empty_role_query = \<lparr>limit = None, offset = None, search = None, role = Some ''''\<rparr>"

definition underscore_query :: list_query where
  "underscore_query = \<lparr>limit = None, offset = None, search = Some ''_'', role = None\<rparr>"

section \<open>Verification of a confirmation code\<close>

text \<open>The operation, with the instance's save written out.\<close>

lemma save_verified:
  "attr u ''id'' = i \<Longrightarrow>
   instance_save tbl
     (u(''email_confirmed'' \<mapsto> Bool True, ''email_confirmation_otp'' \<mapsto> Null,
        ''email_confirmation_otp_expires'' \<mapsto> Null))
     [''email_confirmed'', ''email_confirmation_otp'', ''email_confirmation_otp_expires'']
   = map (\<lambda>r. if attr r ''id'' = i
               then r(''email_confirmed'' \<mapsto> Bool True, ''email_confirmation_otp'' \<mapsto> Null,
                      ''email_confirmation_otp_expires'' \<mapsto> Null)
               else r) tbl"
  unfolding instance_save_def
  by (rule map_cong) (auto simp: attr_def map_add_def restrict_map_def fun_eq_iff)

lemma verify_unfold:
  "verifyEmailOTP tbl now userId otp =
    (case find (\<lambda>r. attr r ''id'' = userId \<and> attr r ''email_confirmation_otp'' = otp \<and>
                  op_gt (attr r ''email_confirmation_otp_expires'') (Date now)) tbl of
       None \<Rightarrow> (Inl (Error ''Invalid or expired OTP''), tbl)
     | Some user \<Rightarrow> (Inr (confirm user),
          map (\<lambda>r. if attr r ''id'' = userId then confirm r else r) tbl))"
  by (auto simp: verifyEmailOTP_def UserModel_findOne_def Let_def confirm_def save_verified attr_def
      split: option.splits dest!: find_Some_iff[THEN iffD1])

lemma op_gt_iff: "op_gt v (Date now) \<longleftrightarrow> (\<exists>t. v = Date t \<and> now < t)"
  by (cases v) (auto simp: op_gt_def)

lemma attr_confirm:
  "attr (confirm r) ''email_confirmed'' = Bool True"
  "attr (confirm r) ''email_confirmation_otp'' = Null"
  "attr (confirm r) ''email_confirmation_otp_expires'' = Null"
  "attr (confirm r) ''id'' = attr r ''id''"
  by (simp_all add: attr_def confirm_def)

lemma find_SomeD: "find P xs = Some x \<Longrightarrow> x \<in> set xs \<and> P x"
  by (induction xs) (auto split: if_splits)

lemma op_gt_Null [simp]: "\<not> op_gt Null w"
  by (simp add: op_gt_def)

lemma find_none_after_confirm:
  "find (\<lambda>r. attr r ''id'' = userId \<and> attr r ''email_confirmation_otp'' = otp \<and>
                  op_gt (attr r ''email_confirmation_otp_expires'') (Date now2))
      (map (\<lambda>r. if attr r ''id'' = userId then confirm r else r) tbl) = None"
  by (induction tbl) (simp_all add: attr_confirm)

text \<open>
  Claim C1. \<open>verifyEmailOTP\<close> succeeds exactly when some row has the given id, the given
  code and an expiry strictly later than the current time. On success the returned user has
  that id, is confirmed and has both code attributes null; the table holds the returned user,
  and is the old table with every row of that id so rewritten; a second call with the same
  code on the resulting table fails at any time. Every failure is the one error
  \<^verbatim>\<open>Invalid or expired OTP\<close>, whichever condition was not met.
\<close>

theorem verifyEmailOTP_spec:
  "((\<exists>u tbl'. verifyEmailOTP tbl now userId otp = (Inr u, tbl')) \<longleftrightarrow>
      (\<exists>r \<in> set tbl. attr r ''id'' = userId \<and> attr r ''email_confirmation_otp'' = otp \<and>
         (\<exists>t. attr r ''email_confirmation_otp_expires'' = Date t \<and> now < t)))
   \<and> (\<forall>u tbl'. verifyEmailOTP tbl now userId otp = (Inr u, tbl') \<longrightarrow>
         attr u ''id'' = userId \<and>
         attr u ''email_confirmed'' = Bool True \<and>
         attr u ''email_confirmation_otp'' = Null \<and>
         attr u ''email_confirmation_otp_expires'' = Null \<and>
         u \<in> set tbl' \<and>
         tbl' = map (\<lambda>r. if attr r ''id'' = userId then confirm r else r) tbl \<and>
         (\<forall>now2. verifyEmailOTP tbl' now2 userId otp = (Inl (Error ''Invalid or expired OTP''), tbl')))
   \<and> (\<forall>e tbl'. verifyEmailOTP tbl now userId otp = (Inl e, tbl') \<longrightarrow>
         e = Error ''Invalid or expired OTP'')"
proof (intro conjI allI impI)
  show "(\<exists>u tbl'. verifyEmailOTP tbl now userId otp = (Inr u, tbl')) \<longleftrightarrow>
      (\<exists>r \<in> set tbl. attr r ''id'' = userId \<and> attr r ''email_confirmation_otp'' = otp \<and>
         (\<exists>t. attr r ''email_confirmation_otp_expires'' = Date t \<and> now < t))"
  proof (cases "find (\<lambda>r. attr r ''id'' = userId \<and> attr r ''email_confirmation_otp'' = otp \<and>
                  op_gt (attr r ''email_confirmation_otp_expires'') (Date now)) tbl")
    case None
    then show ?thesis
      by (simp add: verify_unfold) (auto simp: find_None_iff op_gt_iff)
  next
    case (Some r)
    then show ?thesis
      using find_SomeD [OF Some] by (simp add: verify_unfold) (auto simp: op_gt_iff)
  qed
next
  fix u tbl' assume ok: "verifyEmailOTP tbl now userId otp = (Inr u, tbl')"
  then obtain r where r: "find (\<lambda>r. attr r ''id'' = userId \<and> attr r ''email_confirmation_otp'' = otp \<and>
                  op_gt (attr r ''email_confirmation_otp_expires'') (Date now)) tbl = Some r"
    and u: "u = confirm r"
    and t: "tbl' = map (\<lambda>r. if attr r ''id'' = userId then confirm r else r) tbl"
    by (auto simp: verify_unfold split: option.splits)
  from r have rin: "r \<in> set tbl" and rid: "attr r ''id'' = userId"
    using find_SomeD [OF r] by simp_all
  show "attr u ''id'' = userId" by (simp add: u attr_confirm rid)
  show "attr u ''email_confirmed'' = Bool True" by (simp add: u attr_confirm)
  show "attr u ''email_confirmation_otp'' = Null" by (simp add: u attr_confirm)
  show "attr u ''email_confirmation_otp_expires'' = Null" by (simp add: u attr_confirm)
  show "u \<in> set tbl'" using rin rid by (auto simp: u t intro!: image_eqI [where x = r])
  show "tbl' = map (\<lambda>r. if attr r ''id'' = userId then confirm r else r) tbl" by (rule t)
  fix now2
  show "verifyEmailOTP tbl' now2 userId otp = (Inl (Error ''Invalid or expired OTP''), tbl')"
    unfolding t by (simp add: verify_unfold find_none_after_confirm)
next
  fix e tbl' assume "verifyEmailOTP tbl now userId otp = (Inl e, tbl')"
  then show "e = Error ''Invalid or expired OTP''"
    by (auto simp: verify_unfold split: option.splits)
qed

theorem verifyEmailOTP_spec_witness:
  "verifyEmailOTP [pending_user] 500 (Num 1) (Str ''123456'')
      = (Inr (confirm pending_user), [confirm pending_user])
   \<and> verifyEmailOTP [confirm pending_user] 600 (Num 1) (Str ''123456'')
      = (Inl (Error ''Invalid or expired OTP''), [confirm pending_user])
   \<and> attr (confirm pending_user) ''email_confirmed'' = Bool True"
proof -
  have a: "attr pending_user ''id'' = Num 1" "attr pending_user ''email_confirmation_otp'' = Str ''123456''"
    "attr pending_user ''email_confirmation_otp_expires'' = Date 1000"
    by (simp_all add: attr_def pending_user_def)
  have e: "verifyEmailOTP [pending_user] 500 (Num 1) (Str ''123456'')
      = (Inr (confirm pending_user), [confirm pending_user])"
    by (simp add: verify_unfold a op_gt_def)
  from verifyEmailOTP_spec [of "[pending_user]" 500 "Num 1" "Str ''123456''"] e
  have "verifyEmailOTP [confirm pending_user] 600 (Num 1) (Str ''123456'')
       = (Inl (Error ''Invalid or expired OTP''), [confirm pending_user])"
    and "attr (confirm pending_user) ''email_confirmed'' = Bool True"
    by blast+
  with e show ?thesis by simp
qed

text \<open>
  Claim C2. When \<open>verifyEmailOTP\<close> fails, whatever the reason, the table it leaves behind
  is the table it was given: the failing call writes nothing.
\<close>

theorem verifyEmailOTP_failure_writes_nothing:
  "verifyEmailOTP tbl now userId otp = (Inl e, tbl') \<Longrightarrow> tbl' = tbl"
  by (auto simp: verifyEmailOTP_def Let_def split: option.splits)

theorem verifyEmailOTP_failure_writes_nothing_witness:
  "verifyEmailOTP [pending_user] 2000 (Num 1) (Str ''123456'')
     = (Inl (Error ''Invalid or expired OTP''), [pending_user])"
proof -
  obtain res tbl' where r: "verifyEmailOTP [pending_user] 2000 (Num 1) (Str ''123456'') = (res, tbl')"
    by (cases "verifyEmailOTP [pending_user] 2000 (Num 1) (Str ''123456'')")
  then have e: "res = Inl (Error ''Invalid or expired OTP'')"
    by (simp add: verifyEmailOTP_def UserModel_findOne_def attr_def op_gt_def pending_user_def)
  from verifyEmailOTP_failure_writes_nothing [OF r [unfolded e]] r e show ?thesis by simp
qed

section \<open>Issuing a confirmation code\<close>

lemma map_of_known:
  "map_of (known vs) k = (if k \<in> set tableAttributes then map_of vs k else None)"
  unfolding known_def by (induction vs) auto

lemma known_otp_values:
  "known [(''email_confirmation_otp'', a), (''email_confirmation_otp_expires'', b)]
     = [(''email_confirmation_otp'', a), (''email_confirmation_otp_expires'', b)]"
  by (simp add: known_def tableAttributes_def)

lemma update_otp_values:
  "UserModel_update tbl
     [(''email_confirmation_otp'', a), (''email_confirmation_otp_expires'', b)] w
   = (length (filter w tbl),
      map (\<lambda>r. if w r then r(''email_confirmation_otp'' \<mapsto> a,
                                ''email_confirmation_otp_expires'' \<mapsto> b) else r) tbl)"
  by (auto simp: UserModel_update_def known_otp_values fun_eq_iff)

lemma findByPk_None: "\<forall>r \<in> set tbl. attr r ''id'' \<noteq> i \<Longrightarrow> UserModel_findByPk tbl i = None"
  by (induction tbl) (auto simp: UserModel_findByPk_def)

lemma findByPk_Some:
  "i \<noteq> Null \<Longrightarrow> r \<in> set tbl \<Longrightarrow> attr r ''id'' = i \<Longrightarrow>
   \<exists>u. UserModel_findByPk tbl i = Some u \<and> u \<in> set tbl \<and> attr u ''id'' = i"
  by (induction tbl) (auto simp: UserModel_findByPk_def)

text \<open>
  Claim C5. When no row carries the id, \<open>updateUserOTP\<close> fails with the error
  \<^verbatim>\<open>User not found\<close> that the operation raises itself, and writes nothing. When a row with
  the (non-null) id exists, the lookup finds one; and when the dispatcher then answers a
  code, the operation returns the user it found and leaves every row of that id with the new
  code and the expiry \<open>now + 900000\<close> milliseconds, whatever code and expiry it had.
\<close>

theorem updateUserOTP_spec:
  "((\<forall>r \<in> set tbl. attr r ''id'' \<noteq> userId) \<longrightarrow>
      updateUserOTP tbl send now userId = (Inl (Error ''User not found''), tbl))
   \<and> (userId \<noteq> Null \<and> (\<exists>r \<in> set tbl. attr r ''id'' = userId) \<longrightarrow>
        (\<exists>user. getUserById tbl userId = Some user \<and> user \<in> set tbl \<and> attr user ''id'' = userId))
   \<and> (\<forall>user otp. getUserById tbl userId = Some user \<and>
          send (attr user ''email'') (attr user ''id'') = Inr otp \<longrightarrow>
        updateUserOTP tbl send now userId =
          (Inr user,
           map (\<lambda>r. if attr r ''id'' = userId
                     then r(''email_confirmation_otp'' \<mapsto> Str otp,
                            ''email_confirmation_otp_expires'' \<mapsto> Date (now + 900000))
                     else r) tbl))"
proof (intro conjI allI impI)
  assume "\<forall>r \<in> set tbl. attr r ''id'' \<noteq> userId"
  then show "updateUserOTP tbl send now userId = (Inl (Error ''User not found''), tbl)"
    by (simp add: updateUserOTP_def getUserById_def findByPk_None)
next
  assume "userId \<noteq> Null \<and> (\<exists>r \<in> set tbl. attr r ''id'' = userId)"
  then show "\<exists>user. getUserById tbl userId = Some user \<and> user \<in> set tbl \<and> attr user ''id'' = userId"
    unfolding getUserById_def using findByPk_Some by blast
next
  fix user otp
  assume "getUserById tbl userId = Some user \<and> send (attr user ''email'') (attr user ''id'') = Inr otp"
  then show "updateUserOTP tbl send now userId =
          (Inr user,
           map (\<lambda>r. if attr r ''id'' = userId
                     then r(''email_confirmation_otp'' \<mapsto> Str otp,
                            ''email_confirmation_otp_expires'' \<mapsto> Date (now + 900000))
                     else r) tbl)"
    by (simp add: updateUserOTP_def update_otp_values)
qed

theorem updateUserOTP_spec_witness:
  "updateUserOTP [pending_user] fixed_code 5000 (Num 7) = (Inl (Error ''User not found''), [pending_user])
   \<and> fst (updateUserOTP [pending_user] fixed_code 5000 (Num 1)) = Inr pending_user
   \<and> map (\<lambda>r. (attr r ''email_confirmation_otp'', attr r ''email_confirmation_otp_expires''))
        (snd (updateUserOTP [pending_user] fixed_code 5000 (Num 1)))
       = [(Str ''654321'', Date 905000)]"
proof -
  have a: "attr pending_user ''id'' = Num 1"
    by (simp add: attr_def pending_user_def)
  have g: "getUserById [pending_user] (Num 1) = Some pending_user"
    by (simp add: getUserById_def UserModel_findByPk_def a)
  have s: "fixed_code (attr pending_user ''email'') (attr pending_user ''id'') = Inr ''654321''"
    by (simp add: fixed_code_def)
  have n: "\<forall>r \<in> set [pending_user]. attr r ''id'' \<noteq> Num 7"
    by (simp add: a)
  from updateUserOTP_spec [of "[pending_user]" "Num 7" fixed_code 5000] n
  have 1: "updateUserOTP [pending_user] fixed_code 5000 (Num 7) = (Inl (Error ''User not found''), [pending_user])"
    by blast
  from updateUserOTP_spec [of "[pending_user]" "Num 1" fixed_code 5000] g s
  have 2: "updateUserOTP [pending_user] fixed_code 5000 (Num 1) =
          (Inr pending_user,
           map (\<lambda>r. if attr r ''id'' = Num 1
                     then r(''email_confirmation_otp'' \<mapsto> Str ''654321'',
                            ''email_confirmation_otp_expires'' \<mapsto> Date (5000 + 900000))
                     else r) [pending_user])"
    by blast
  show ?thesis unfolding 1 2 by (simp add: a) (simp add: attr_def)
qed


section \<open>Registration\<close>

lemma attr_upd: "attr (r(k \<mapsto> v)) k' = (if k' = k then v else attr r k')"
  by (simp add: attr_def)

lemma attr_map_add: "attr (r ++ m) k = (case m k of Some v \<Rightarrow> v | None \<Rightarrow> attr r k)"
  by (simp add: attr_def map_add_def split: option.splits)

lemma attr_new_row:
  "attr (new_row gen_id t vs) k =
     (if k = ''id'' then gen_id
      else case map_of (known vs) k of Some v \<Rightarrow> v | None \<Rightarrow> attr (defaults t) k)"
  by (simp add: new_row_def attr_upd attr_map_add)

lemma attr_defaults:
  "attr (defaults t) ''email'' = Null"
  "attr (defaults t) ''email_confirmed'' = Bool False"
  "attr (defaults t) ''email_confirmation_otp'' = Null"
  "attr (defaults t) ''email_confirmation_otp_expires'' = Null"
  by (simp_all add: attr_def defaults_def)

lemma in_tableAttributes:
  "''email'' \<in> set tableAttributes"
  "''email_confirmed'' \<in> set tableAttributes"
  "''email_confirmation_otp'' \<in> set tableAttributes"
  "''email_confirmation_otp_expires'' \<in> set tableAttributes"
  by (simp_all add: tableAttributes_def)

lemma create_ok:
  assumes "attr (new_row gen_id t vs) ''email'' \<noteq> Null"
    and "\<forall>r \<in> set tbl. attr r ''id'' \<noteq> gen_id \<and> attr r ''email'' \<noteq> attr (new_row gen_id t vs) ''email''"
  shows "UserModel_create tbl gen_id t vs = (Inr (new_row gen_id t vs), tbl @ [new_row gen_id t vs])"
  using assms by (auto simp: UserModel_create_def Let_def list_ex_iff attr_new_row)

lemma map_untouched: "\<forall>r \<in> set tbl. \<not> w r \<Longrightarrow> map (\<lambda>r. if w r then f r else r) tbl = tbl"
  by (induction tbl) auto

text \<open>
  \<open>createUser\<close> on data with an e-mail address that no row has, an unused identifier
  and a dispatcher that answers a code: the instance is returned as created, and the table
  gains the created row with the code and its expiry.
\<close>

lemma createUser_stores:
  assumes email: "map_of userData ''email'' = Some (Str e)"
    and fresh: "\<forall>r \<in> set tbl. attr r ''id'' \<noteq> gen_id \<and> attr r ''email'' \<noteq> Str e"
    and sent: "send (Str e) gen_id = Inr otp"
  shows "createUser tbl send gen_id t now userData =
      (Inr (new_row gen_id t userData),
       tbl @ [(new_row gen_id t userData)
                (''email_confirmation_otp'' \<mapsto> Str otp,
                 ''email_confirmation_otp_expires'' \<mapsto> Date (now + 900 * 1000))])"
proof -
  let ?u = "new_row gen_id t userData"
  have em: "attr ?u ''email'' = Str e" and uid: "attr ?u ''id'' = gen_id"
    using email by (simp_all add: attr_new_row map_of_known in_tableAttributes)
  have c: "UserModel_create tbl gen_id t userData = (Inr ?u, tbl @ [?u])"
    using fresh by (intro create_ok) (simp_all add: em)
  have old: "map (\<lambda>r. if attr r ''id'' = gen_id
                 then r(''email_confirmation_otp'' \<mapsto> Str otp,
                        ''email_confirmation_otp_expires'' \<mapsto> Date (now + 900000))
                 else r) tbl = tbl"
    using fresh by (intro map_untouched) simp
  show ?thesis
    using sent by (simp add: createUser_def c em uid update_otp_values old)
qed

lemma new_row_email_confirmed:
  "attr (new_row gen_id t userData) ''email_confirmed'' =
     (case map_of userData ''email_confirmed'' of None \<Rightarrow> Bool False | Some v \<Rightarrow> v)"
  by (simp add: attr_new_row map_of_known in_tableAttributes attr_defaults
        split: option.splits)

text \<open>
  Claim C4, amended. For a registration with an e-mail address that no row has, an unused
  identifier assigned by the data store and a dispatch that answers the code \<open>otp\<close>,
  \<open>createUser\<close> returns the created user and appends one row to the table: the created
  user with the code and the expiry \<open>now + 900 * 1000\<close> milliseconds, so its code is not
  null. That row has \<^verbatim>\<open>email_confirmed\<close> false when the registration does not mention the
  attribute, and otherwise the value the registration gives it. Without an e-mail address
  \<open>createUser\<close> fails with a validation error, with an e-mail address already in the
  table it fails with a uniqueness violation, and in both cases the table is unchanged.
\<close>

theorem createUser_spec:
  "(\<forall>e otp. map_of userData ''email'' = Some (Str e) \<and>
        (\<forall>r \<in> set tbl. attr r ''id'' \<noteq> gen_id \<and> attr r ''email'' \<noteq> Str e) \<and>
        send (Str e) gen_id = Inr otp \<longrightarrow>
      (\<exists>user stored.
         createUser tbl send gen_id t now userData = (Inr user, tbl @ [stored]) \<and>
         user = new_row gen_id t userData \<and>
         stored = user(''email_confirmation_otp'' \<mapsto> Str otp,
                       ''email_confirmation_otp_expires'' \<mapsto> Date (now + 900 * 1000)) \<and>
         attr stored ''id'' = gen_id \<and>
         attr stored ''email'' = Str e \<and>
         attr stored ''email_confirmed'' =
           (case map_of userData ''email_confirmed'' of None \<Rightarrow> Bool False | Some v \<Rightarrow> v) \<and>
         attr stored ''email_confirmation_otp'' = Str otp \<and>
         attr stored ''email_confirmation_otp'' \<noteq> Null \<and>
         attr stored ''email_confirmation_otp_expires'' = Date (now + 900 * 1000)))
   \<and> (map_of userData ''email'' \<in> {None, Some Null} \<longrightarrow>
        createUser tbl send gen_id t now userData = (Inl ValidationError, tbl))
   \<and> (\<forall>e. map_of userData ''email'' = Some (Str e) \<and> (\<exists>r \<in> set tbl. attr r ''email'' = Str e) \<longrightarrow>
        createUser tbl send gen_id t now userData = (Inl UniqueConstraintError, tbl))"
proof (intro conjI allI impI)
  fix e otp
  assume h: "map_of userData ''email'' = Some (Str e) \<and>
        (\<forall>r \<in> set tbl. attr r ''id'' \<noteq> gen_id \<and> attr r ''email'' \<noteq> Str e) \<and>
        send (Str e) gen_id = Inr otp"
  let ?u = "new_row gen_id t userData"
  have em: "attr ?u ''email'' = Str e" and uid: "attr ?u ''id'' = gen_id"
    using h by (simp_all add: attr_new_row map_of_known in_tableAttributes)
  from h have h1: "map_of userData ''email'' = Some (Str e)"
    and h2: "\<forall>r \<in> set tbl. attr r ''id'' \<noteq> gen_id \<and> attr r ''email'' \<noteq> Str e"
    and h3: "send (Str e) gen_id = Inr otp"
    by blast+
  have "createUser tbl send gen_id t now userData =
      (Inr ?u, tbl @ [?u(''email_confirmation_otp'' \<mapsto> Str otp,
                         ''email_confirmation_otp_expires'' \<mapsto> Date (now + 900 * 1000))])"
    using h1 h2 h3 by (rule createUser_stores [where send = send and e = e])
  then show "\<exists>user stored.
         createUser tbl send gen_id t now userData = (Inr user, tbl @ [stored]) \<and>
         user = new_row gen_id t userData \<and>
         stored = user(''email_confirmation_otp'' \<mapsto> Str otp,
                       ''email_confirmation_otp_expires'' \<mapsto> Date (now + 900 * 1000)) \<and>
         attr stored ''id'' = gen_id \<and>
         attr stored ''email'' = Str e \<and>
         attr stored ''email_confirmed'' =
           (case map_of userData ''email_confirmed'' of None \<Rightarrow> Bool False | Some v \<Rightarrow> v) \<and>
         attr stored ''email_confirmation_otp'' = Str otp \<and>
         attr stored ''email_confirmation_otp'' \<noteq> Null \<and>
         attr stored ''email_confirmation_otp_expires'' = Date (now + 900 * 1000)"
    by (simp add: attr_upd em uid new_row_email_confirmed)
next
  assume "map_of userData ''email'' \<in> {None, Some Null}"
  then have "attr (new_row gen_id t userData) ''email'' = Null"
    by (auto simp: attr_new_row map_of_known in_tableAttributes attr_defaults)
  then show "createUser tbl send gen_id t now userData = (Inl ValidationError, tbl)"
    by (simp add: createUser_def UserModel_create_def)
next
  fix e
  assume h: "map_of userData ''email'' = Some (Str e) \<and> (\<exists>r \<in> set tbl. attr r ''email'' = Str e)"
  then have em: "attr (new_row gen_id t userData) ''email'' = Str e"
    by (simp add: attr_new_row map_of_known in_tableAttributes)
  have "list_ex (\<lambda>r'. attr r' ''id'' = attr (new_row gen_id t userData) ''id'' \<or>
                     attr r' ''email'' = attr (new_row gen_id t userData) ''email'') tbl"
    using h unfolding list_ex_iff em by blast
  then show "createUser tbl send gen_id t now userData = (Inl UniqueConstraintError, tbl)"
    by (simp add: createUser_def UserModel_create_def Let_def em)
qed

theorem createUser_spec_witness:
  "(\<exists>user stored.
      createUser [pending_user] fixed_code (Num 2) 100 200 registration
        = (Inr user, [pending_user] @ [stored]) \<and>
      attr stored ''email_confirmed'' = Bool False \<and>
      attr stored ''email_confirmation_otp'' = Str ''654321'' \<and>
      attr stored ''email_confirmation_otp_expires'' = Date 900200)
   \<and> createUser [pending_user] fixed_code (Num 2) 100 200 [(''first_name'', Str ''Cy'')]
        = (Inl ValidationError, [pending_user])
   \<and> createUser [pending_user] fixed_code (Num 2) 100 200 [(''email'', Str ''a@b.com'')]
        = (Inl UniqueConstraintError, [pending_user])"
proof -
  have a: "attr pending_user ''id'' = Num 1" "attr pending_user ''email'' = Str ''a@b.com''"
    by (simp_all add: attr_def pending_user_def)
  have h1: "map_of registration ''email'' = Some (Str ''c@d.com'') \<and>
        (\<forall>r \<in> set [pending_user]. attr r ''id'' \<noteq> Num 2 \<and> attr r ''email'' \<noteq> Str ''c@d.com'') \<and>
        fixed_code (Str ''c@d.com'') (Num 2) = Inr ''654321''"
    by (simp add: registration_def a fixed_code_def)
  have n: "map_of registration ''email_confirmed'' = None"
    by (simp add: registration_def)
  have h2: "map_of [(''first_name'', Str ''Cy'')] ''email'' \<in> {None, Some Null}"
    by simp
  have h3: "map_of [(''email'', Str ''a@b.com'')] ''email'' = Some (Str ''a@b.com'') \<and>
            (\<exists>r \<in> set [pending_user]. attr r ''email'' = Str ''a@b.com'')"
    by (simp add: a)
  from createUser_spec [where userData = registration and tbl = "[pending_user]"
      and gen_id = "Num 2" and send = fixed_code and t = 100 and now = 200] h1
  obtain user stored where
    "createUser [pending_user] fixed_code (Num 2) 100 200 registration
        = (Inr user, [pending_user] @ [stored])"
    "attr stored ''email_confirmed'' =
       (case map_of registration ''email_confirmed'' of None \<Rightarrow> Bool False | Some v \<Rightarrow> v)"
    "attr stored ''email_confirmation_otp'' = Str ''654321''"
    "attr stored ''email_confirmation_otp_expires'' = Date (200 + 900 * 1000)"
    by blast
  then have 1: "\<exists>user stored.
      createUser [pending_user] fixed_code (Num 2) 100 200 registration
        = (Inr user, [pending_user] @ [stored]) \<and>
      attr stored ''email_confirmed'' = Bool False \<and>
      attr stored ''email_confirmation_otp'' = Str ''654321'' \<and>
      attr stored ''email_confirmation_otp_expires'' = Date 900200"
    by (auto simp: n)
  from createUser_spec [where userData = "[(''first_name'', Str ''Cy'')]" and tbl = "[pending_user]"
      and gen_id = "Num 2" and send = fixed_code and t = 100 and now = 200] h2
  have 2: "createUser [pending_user] fixed_code (Num 2) 100 200 [(''first_name'', Str ''Cy'')]
        = (Inl ValidationError, [pending_user])"
    by blast
  from createUser_spec [where userData = "[(''email'', Str ''a@b.com'')]" and tbl = "[pending_user]"
      and gen_id = "Num 2" and send = fixed_code and t = 100 and now = 200] h3
  have 3: "createUser [pending_user] fixed_code (Num 2) 100 200 [(''email'', Str ''a@b.com'')]
        = (Inl UniqueConstraintError, [pending_user])"
    by blast
  from 1 2 3 show ?thesis by blast
qed

text \<open>
  Claim C4 as stated fails. A registration with a new e-mail address that presets
  \<^verbatim>\<open>email_confirmed\<close> to true is created as given: the stored user is confirmed, with the
  dispatched code pending.
\<close>

theorem createUser_preset_confirmed:
  "createUser [pending_user] fixed_code (Num 2) 100 200 preset_registration
     = (Inr (new_row (Num 2) 100 preset_registration),
        [pending_user] @
        [(new_row (Num 2) 100 preset_registration)
           (''email_confirmation_otp'' \<mapsto> Str ''654321'',
            ''email_confirmation_otp_expires'' \<mapsto> Date (200 + 900 * 1000))])
   \<and> attr ((new_row (Num 2) 100 preset_registration)
              (''email_confirmation_otp'' \<mapsto> Str ''654321'',
               ''email_confirmation_otp_expires'' \<mapsto> Date (200 + 900 * 1000)))
         ''email_confirmed'' = Bool True
   \<and> attr ((new_row (Num 2) 100 preset_registration)
              (''email_confirmation_otp'' \<mapsto> Str ''654321'',
               ''email_confirmation_otp_expires'' \<mapsto> Date (200 + 900 * 1000)))
         ''email_confirmation_otp'' = Str ''654321''"
proof -
  have a: "attr pending_user ''id'' = Num 1" "attr pending_user ''email'' = Str ''a@b.com''"
    by (simp_all add: attr_def pending_user_def)
  have "createUser [pending_user] fixed_code (Num 2) 100 200 preset_registration
     = (Inr (new_row (Num 2) 100 preset_registration),
        [pending_user] @
        [(new_row (Num 2) 100 preset_registration)
           (''email_confirmation_otp'' \<mapsto> Str ''654321'',
            ''email_confirmation_otp_expires'' \<mapsto> Date (200 + 900 * 1000))])"
    by (rule createUser_stores [where e = "''z@d.com''"])
       (simp_all add: preset_registration_def a fixed_code_def)
  moreover have "attr (new_row (Num 2) 100 preset_registration) ''email_confirmed'' = Bool True"
    by (simp add: new_row_email_confirmed preset_registration_def)
  ultimately show ?thesis
    by (simp add: attr_upd)
qed

section \<open>Preservation of the one-time-code invariant\<close>

lemma invariant_cong:
  "attr r' ''email_confirmed'' = attr r ''email_confirmed'' \<Longrightarrow>
   attr r' ''email_confirmation_otp'' = attr r ''email_confirmation_otp'' \<Longrightarrow>
   attr r' ''email_confirmation_otp_expires'' = attr r ''email_confirmation_otp_expires'' \<Longrightarrow>
   otp_invariant r' = otp_invariant r"
  by (simp add: otp_invariant_def)

lemma neutral_add:
  "otp_neutral vs \<Longrightarrow> otp_invariant (r ++ map_of (known vs)) = otp_invariant r"
  by (rule invariant_cong) (simp_all add: otp_neutral_def attr_map_add map_of_known)

lemma invariant_confirm: "otp_invariant (confirm r)"
  by (simp add: otp_invariant_def attr_confirm)

lemma invariant_set_otp:
  "attr r ''email_confirmed'' \<noteq> Bool True \<Longrightarrow>
   otp_invariant (r(''email_confirmation_otp'' \<mapsto> Str c, ''email_confirmation_otp_expires'' \<mapsto> Date d))"
  by (simp add: otp_invariant_def attr_upd)

lemma paired_set_otp:
  "otp_paired (r(''email_confirmation_otp'' \<mapsto> Str c, ''email_confirmation_otp_expires'' \<mapsto> Date d))"
  by (simp add: otp_paired_def attr_upd)

lemma inv_verify: "list_all otp_invariant tbl \<Longrightarrow> list_all otp_invariant (snd (verifyEmailOTP tbl now userId otp))"
  by (auto simp: verify_unfold list_all_iff invariant_confirm split: option.splits)

lemma inv_delete: "list_all otp_invariant tbl \<Longrightarrow> list_all otp_invariant (snd (deleteUser tbl i))"
  by (auto simp: deleteUser_def UserModel_destroy_def list_all_iff)

lemma inv_updateUser:
  "list_all otp_invariant tbl \<Longrightarrow> otp_neutral vs \<Longrightarrow> list_all otp_invariant (snd (updateUser tbl i vs))"
  by (auto simp: updateUser_def UserModel_update_def list_all_iff neutral_add)

lemma inv_revoke: "list_all otp_invariant tbl \<Longrightarrow> list_all otp_invariant (snd (revokeRefreshToken tbl i))"
  by (auto simp: revokeRefreshToken_def UserModel_update_def list_all_iff known_def tableAttributes_def)

lemma inv_updateUserOTP:
  "list_all otp_invariant tbl \<Longrightarrow> \<forall>r \<in> set tbl. attr r ''id'' = userId \<longrightarrow> attr r ''email_confirmed'' \<noteq> Bool True \<Longrightarrow>
   list_all otp_invariant (snd (updateUserOTP tbl send now userId))"
  by (auto simp: updateUserOTP_def update_otp_values list_all_iff invariant_set_otp
      split: option.splits sum.splits)

lemma paired_updateUserOTP:
  "list_all otp_paired tbl \<Longrightarrow> list_all otp_paired (snd (updateUserOTP tbl send now userId))"
  by (auto simp: updateUserOTP_def update_otp_values list_all_iff paired_set_otp
      split: option.splits sum.splits)

lemma invariant_new_row:
  "otp_neutral vs \<Longrightarrow> otp_invariant (new_row gen_id t vs)"
  by (simp add: otp_invariant_def otp_neutral_def attr_new_row map_of_known attr_defaults)

lemma new_row_unconfirmed:
  "otp_neutral vs \<Longrightarrow> attr (new_row gen_id t vs) ''email_confirmed'' = Bool False"
  by (simp add: otp_neutral_def attr_new_row map_of_known attr_defaults)

lemma invariant_google_row:
  "otp_neutral vs \<Longrightarrow> otp_invariant (new_row gen_id t (AList.update ''email_confirmed'' (Bool True) vs))"
  by (simp add: otp_invariant_def otp_neutral_def attr_new_row map_of_known attr_defaults
        update_conv')

lemma create_cases:
  "UserModel_create tbl gen_id t vs = (Inl ValidationError, tbl) \<or>
   UserModel_create tbl gen_id t vs = (Inl UniqueConstraintError, tbl) \<or>
   (UserModel_create tbl gen_id t vs = (Inr (new_row gen_id t vs), tbl @ [new_row gen_id t vs]) \<and>
    (\<forall>r \<in> set tbl. attr r ''id'' \<noteq> gen_id))"
  by (auto simp: UserModel_create_def Let_def list_ex_iff attr_new_row)

lemma inv_createGoogleUser:
  "list_all otp_invariant tbl \<Longrightarrow> otp_neutral vs \<Longrightarrow>
   list_all otp_invariant (snd (createGoogleUser tbl gen_id t vs))"
  using create_cases [of tbl gen_id t "AList.update ''email_confirmed'' (Bool True) vs"]
  by (auto simp: createGoogleUser_def invariant_google_row)

lemma inv_createUser:
  assumes "list_all otp_invariant tbl" "otp_neutral vs"
  shows "list_all otp_invariant (snd (createUser tbl send gen_id t now vs))"
proof -
  let ?u = "new_row gen_id t vs"
  have uid: "attr ?u ''id'' = gen_id" by (simp add: attr_new_row)
  from create_cases [of tbl gen_id t vs] show ?thesis
  proof (elim disjE conjE)
    assume c: "UserModel_create tbl gen_id t vs = (Inr ?u, tbl @ [?u])"
      and fresh: "\<forall>r \<in> set tbl. attr r ''id'' \<noteq> gen_id"
    have old: "\<And>f. map (\<lambda>r. if attr r ''id'' = gen_id then f r else r) tbl = tbl"
      using fresh by (intro map_untouched) simp
    show ?thesis
      using assms
      by (cases "send (attr ?u ''email'') gen_id")
         (simp_all add: createUser_def c uid update_otp_values old invariant_new_row
            invariant_set_otp new_row_unconfirmed)
  qed (simp_all add: createUser_def assms)
qed

text \<open>
  Claim C3, amended. On a table whose rows all satisfy the invariant: \<open>verifyEmailOTP\<close>,
  \<open>deleteUser\<close> and \<open>revokeRefreshToken\<close> preserve it; \<open>createUser\<close>,
  \<open>createGoogleUser\<close> and \<open>updateUser\<close> preserve it when the data they are given mentions
  none of \<^verbatim>\<open>email_confirmed\<close>, \<^verbatim>\<open>email_confirmation_otp\<close> and
  \<^verbatim>\<open>email_confirmation_otp_expires\<close>; \<open>updateUserOTP\<close> preserves it when the user of that id
  is not confirmed, and in every case keeps the code and its expiry both null or both set.
\<close>

theorem otp_invariant_preserved:
  assumes "list_all otp_invariant tbl"
  shows "(otp_neutral userData \<longrightarrow>
            list_all otp_invariant (snd (createUser tbl send gen_id t now userData)))
       \<and> (otp_neutral userData \<longrightarrow>
            list_all otp_invariant (snd (createGoogleUser tbl gen_id t userData)))
       \<and> ((\<forall>r \<in> set tbl. attr r ''id'' = userId \<longrightarrow> attr r ''email_confirmed'' \<noteq> Bool True) \<longrightarrow>
            list_all otp_invariant (snd (updateUserOTP tbl send now userId)))
       \<and> list_all otp_paired (snd (updateUserOTP tbl send now userId))
       \<and> list_all otp_invariant (snd (verifyEmailOTP tbl now userId otp))
       \<and> (otp_neutral userData \<longrightarrow>
            list_all otp_invariant (snd (updateUser tbl userId userData)))
       \<and> list_all otp_invariant (snd (deleteUser tbl userId))
       \<and> list_all otp_invariant (snd (revokeRefreshToken tbl userId))"
proof -
  have p: "list_all otp_paired tbl"
    using assms by (simp add: list_all_iff otp_invariant_def otp_paired_def)
  show ?thesis
    using assms
    by (intro conjI impI inv_createUser inv_createGoogleUser inv_updateUserOTP
          paired_updateUserOTP [OF p] inv_verify inv_updateUser inv_delete inv_revoke)
qed

theorem otp_invariant_preserved_witness:
  "list_all otp_invariant [pending_user] \<and> otp_neutral registration
   \<and> attr pending_user ''email_confirmed'' \<noteq> Bool True
   \<and> list_all otp_invariant (snd (createUser [pending_user] fixed_code (Num 2) 100 200 registration))
   \<and> list_all otp_invariant (snd (createGoogleUser [pending_user] (Num 2) 100 registration))
   \<and> list_all otp_invariant (snd (updateUserOTP [pending_user] fixed_code 200 (Num 1)))
   \<and> list_all otp_invariant (snd (verifyEmailOTP [pending_user] 200 (Num 1) (Str ''123456'')))
   \<and> list_all otp_invariant (snd (updateUser [pending_user] (Num 1) registration))
   \<and> list_all otp_invariant (snd (deleteUser [pending_user] (Num 1)))
   \<and> list_all otp_invariant (snd (revokeRefreshToken [pending_user] (Num 1)))"
proof -
  have i: "list_all otp_invariant [pending_user]"
    by (simp add: otp_invariant_def attr_def pending_user_def)
  have n: "otp_neutral registration"
    by (simp add: otp_neutral_def registration_def)
  have u: "attr pending_user ''email_confirmed'' \<noteq> Bool True"
    by (simp add: attr_def pending_user_def)
  then have u': "\<forall>r \<in> set [pending_user]. attr r ''id'' = Num 1 \<longrightarrow> attr r ''email_confirmed'' \<noteq> Bool True"
    by simp
  from otp_invariant_preserved [OF i, where userData = registration and userId = "Num 1"] n u' u i
  show ?thesis by blast
qed

lemma google_table_eq:
  "google_table = [new_row (Num 2) 100
     [(''email'', Str ''g@b.com''), (''google_id'', Str ''g-1''), (''email_confirmed'', Bool True)]]"
  by (simp add: google_table_def createGoogleUser_def UserModel_create_def Let_def attr_new_row
        map_of_known in_tableAttributes)

text \<open>
  Claim C3 as stated fails: after a federated sign-up the invariant holds, and
  \<open>updateUserOTP\<close> for that confirmed account leaves it confirmed with a pending code.
\<close>

theorem otp_invariant_not_preserved:
  "list_all otp_invariant google_table
   \<and> \<not> list_all otp_invariant (snd (updateUserOTP google_table fixed_code 5000 (Num 2)))"
  by (simp add: google_table_eq otp_invariant_def attr_new_row map_of_known in_tableAttributes
        attr_defaults updateUserOTP_def getUserById_def UserModel_findByPk_def fixed_code_def
        update_otp_values attr_upd)

section \<open>Listings\<close>

lemma getAllUsers_Inr:
  assumes "getAllUsers tbl q = Inr res"
  shows "\<exists>lim off. parseInt (case limit q of None \<Rightarrow> N 10 | Some v \<Rightarrow> v) = Some lim \<and>
           parseInt (case offset q of None \<Rightarrow> N 0 | Some v \<Rightarrow> v) = Some off \<and>
           0 \<le> lim \<and> 0 \<le> off \<and>
           users res = map project (take (nat lim) (drop (nat off)
              (order_created_at_desc
                 (filter (whereClause (case search q of None \<Rightarrow> [] | Some s \<Rightarrow> s) (role q)) tbl)))) \<and>
           totalCount res =
              length (filter (whereClause (case search q of None \<Rightarrow> [] | Some s \<Rightarrow> s) (role q)) tbl)"
  using assms
  by (auto simp: getAllUsers_def Let_def UserModel_findAndCountAll_def project_def
      split: option.splits if_splits)

lemma dom_project:
  "k \<in> set [''refresh_token'', ''email_confirmation_otp'', ''email_confirmation_otp_expires'']
   \<Longrightarrow> k \<notin> dom (project r)"
  by (auto simp: project_def restrict_map_def dom_def)

lemma users_projected:
  assumes "getAllUsers tbl q = Inr res" "u \<in> set (users res)"
  shows "\<exists>r \<in> set tbl. u = project r \<and>
           whereClause (case search q of None \<Rightarrow> [] | Some s \<Rightarrow> s) (role q) r"
proof -
  from getAllUsers_Inr [OF assms(1)] obtain lim off where
    u: "users res = map project (take (nat lim) (drop (nat off)
              (order_created_at_desc
                 (filter (whereClause (case search q of None \<Rightarrow> [] | Some s \<Rightarrow> s) (role q)) tbl))))"
    by blast
  from assms(2) obtain r where "u = project r"
    and "r \<in> set (take (nat lim) (drop (nat off)
              (order_created_at_desc
                 (filter (whereClause (case search q of None \<Rightarrow> [] | Some s \<Rightarrow> s) (role q)) tbl))))"
    unfolding u by auto
  then have "r \<in> set (order_created_at_desc
                 (filter (whereClause (case search q of None \<Rightarrow> [] | Some s \<Rightarrow> s) (role q)) tbl))"
    by (meson in_set_takeD in_set_dropD)
  then show ?thesis using \<open>u = project r\<close> by (auto simp: order_created_at_desc_def)
qed

text \<open>
  Claim C7. No user of a listing returned by \<open>getAllUsers\<close> has the attribute
  \<^verbatim>\<open>refresh_token\<close>, \<^verbatim>\<open>email_confirmation_otp\<close> or \<^verbatim>\<open>email_confirmation_otp_expires\<close>.
\<close>

theorem getAllUsers_excludes:
  assumes "getAllUsers tbl q = Inr res"
  shows "\<forall>u \<in> set (users res).
      ''refresh_token'' \<notin> dom u \<and> ''email_confirmation_otp'' \<notin> dom u \<and>
      ''email_confirmation_otp_expires'' \<notin> dom u"
proof
  fix u assume "u \<in> set (users res)"
  with users_projected [OF assms] obtain r where "u = project r" by blast
  then show "''refresh_token'' \<notin> dom u \<and> ''email_confirmation_otp'' \<notin> dom u \<and>
      ''email_confirmation_otp_expires'' \<notin> dom u"
    by (simp add: dom_project)
qed

lemma sort_single: "order_created_at_desc [r] = [r]"
  by (simp add: order_created_at_desc_def)

lemma getAllUsers_default_single:
  "getAllUsers [pending_user] default_query
     = Inr \<lparr>users = [project pending_user], totalCount = 1, nextOffset = None\<rparr>"
  by (simp add: getAllUsers_def default_query_def parseInt_def UserModel_findAndCountAll_def
        whereClause_def sort_single project_def js_plus_def js_less_def)

theorem getAllUsers_excludes_witness:
  "getAllUsers [pending_user] default_query
     = Inr \<lparr>users = [project pending_user], totalCount = 1, nextOffset = None\<rparr>
   \<and> ''refresh_token'' \<in> dom pending_user
   \<and> ''refresh_token'' \<notin> dom (project pending_user)
   \<and> ''email_confirmation_otp'' \<notin> dom (project pending_user)
   \<and> ''email_confirmation_otp_expires'' \<notin> dom (project pending_user)"
proof -
  have "''refresh_token'' \<in> dom pending_user"
    by (simp add: pending_user_def dom_def)
  with getAllUsers_excludes [OF getAllUsers_default_single] getAllUsers_default_single
  show ?thesis by simp
qed

lemma created_at_samples:
  "created_at pending_user = Some 100" "created_at second_user = Some 200"
  "created_at third_user = Some 300"
  by (simp_all add: created_at_def attr_def pending_user_def second_user_def third_user_def)

lemma order_three:
  "order_created_at_desc [pending_user, second_user, third_user]
     = [third_user, second_user, pending_user]"
  by (simp add: order_created_at_desc_def created_at_samples)

lemma parseInt_one: "parseInt (S ''1'') = Some 1"
  by (simp add: parseInt_def parseInt_string_def is_space_def is_digit_def hex_prefixed_def
        radix_value_def digit_value_def)

lemma show_nat_one: "show_nat (Suc 0) = ''1''"
  by code_simp

lemma to_number_eleven: "to_number ''11'' = Some 11"
  by (simp add: to_number_def is_space_def is_digit_def hex_prefixed_def
        radix_value_def digit_value_def)

text \<open>
  Claim C8. Three users, offset \<^verbatim>\<open>"1"\<close> and limit \<^verbatim>\<open>"1"\<close>: the page holds one user of
  three, so offset plus the rows returned is 2, less than the total 3, and the next offset
  would be 2. The source compares \<^verbatim>\<open>offset + rows.length\<close>, the string \<^verbatim>\<open>"11"\<close>, with 3
  and answers null.
\<close>

theorem getAllUsers_string_offset:
  "getAllUsers [pending_user, second_user, third_user] second_page
     = Inr \<lparr>users = [project second_user], totalCount = 3, nextOffset = None\<rparr>"
  by (simp add: getAllUsers_def second_page_def parseInt_one UserModel_findAndCountAll_def
        whereClause_def order_three project_def js_plus_def js_less_def show_nat_one
        to_number_eleven)

text \<open>When limit and offset are numbers the next offset is as the claim has it.\<close>

lemma getAllUsers_nextOffset_numbers:
  assumes "getAllUsers tbl q = Inr res" "limit q = Some (N lim)" "offset q = Some (N off)"
  shows "nextOffset res =
           (if off + int (length (users res)) < int (totalCount res) then Some (off + lim) else None)"
  using assms
  by (auto simp: getAllUsers_def Let_def parseInt_def UserModel_findAndCountAll_def
        js_plus_def js_less_def split: if_splits)

subsection \<open>Patterns and substrings\<close>

lemma like_percent: "like (CHR ''%'' # ps) t \<longleftrightarrow> (\<exists>a b. t = a @ b \<and> like ps b)"
proof (induction t)
  case Nil
  then show ?case by simp
next
  case (Cons c cs)
  have "like (CHR ''%'' # ps) (c # cs) \<longleftrightarrow> like ps (c # cs) \<or> like (CHR ''%'' # ps) cs"
    by simp
  also have "\<dots> \<longleftrightarrow> like ps (c # cs) \<or> (\<exists>a b. cs = a @ b \<and> like ps b)"
    by (simp only: Cons.IH)
  also have "\<dots> \<longleftrightarrow> (\<exists>a b. c # cs = a @ b \<and> like ps b)"
    by (auto simp: Cons_eq_append_conv)
  finally show ?case .
qed

lemma like_plain_prefix:
  "plain p \<Longrightarrow> like (p @ q) t \<longleftrightarrow> (\<exists>t'. t = p @ t' \<and> like q t')"
proof (induction p arbitrary: t)
  case Nil
  then show ?case by simp
next
  case (Cons x xs)
  then have x: "x \<noteq> CHR ''%''" "x \<noteq> CHR ''_''" "x \<noteq> CHR 0x5C" and xs: "plain xs"
    by (simp_all add: plain_def)
  show ?case
  proof (cases t)
    case Nil
    then show ?thesis using x by simp
  next
    case (Cons c cs)
    then show ?thesis using x Cons.IH [OF xs, of cs] by auto
  qed
qed

lemma like_percent_only: "like ''%'' t"
  by (induction t) simp_all

lemma like_contains:
  "plain p \<Longrightarrow> like (CHR ''%'' # p @ ''%'') t \<longleftrightarrow> sublist p t"
proof -
  assume p: "plain p"
  have "like (CHR ''%'' # p @ ''%'') t \<longleftrightarrow> (\<exists>a b. t = a @ b \<and> like (p @ ''%'') b)"
    by (rule like_percent)
  also have "\<dots> \<longleftrightarrow> (\<exists>a b. t = a @ b \<and> (\<exists>t'. b = p @ t' \<and> like ''%'' t'))"
    by (simp only: like_plain_prefix [OF p])
  also have "\<dots> \<longleftrightarrow> (\<exists>a t'. t = a @ p @ t')"
    by (simp only: like_percent_only) blast
  finally show ?thesis by (simp only: sublist_def)
qed

lemma of_char_lower:
  "(of_char (lower c) :: nat) =
     (if 65 \<le> (of_char c :: nat) \<and> (of_char c :: nat) \<le> 90 then of_char c + 32 else of_char c)"
  by (simp add: lower_def)

lemma lower_meta:
  "lower c = CHR ''%'' \<longleftrightarrow> c = CHR ''%''"
  "lower c = CHR ''_'' \<longleftrightarrow> c = CHR ''_''"
  "lower c = CHR 0x5C \<longleftrightarrow> c = CHR 0x5C"
proof -
  have *: "\<And>d. lower c = d \<longleftrightarrow> (of_char (lower c) :: nat) = of_char d"
    by simp
  have **: "\<And>d. c = d \<longleftrightarrow> (of_char c :: nat) = of_char d"
    by simp
  show "lower c = CHR ''%'' \<longleftrightarrow> c = CHR ''%''"
    unfolding * [of "CHR ''%''"] ** [of "CHR ''%''"] of_char_lower by simp
  show "lower c = CHR ''_'' \<longleftrightarrow> c = CHR ''_''"
    unfolding * [of "CHR ''_''"] ** [of "CHR ''_''"] of_char_lower by simp
  show "lower c = CHR 0x5C \<longleftrightarrow> c = CHR 0x5C"
    unfolding * [of "CHR 0x5C"] ** [of "CHR 0x5C"] of_char_lower by simp
qed

lemma plain_lower: "plain s \<Longrightarrow> plain (map lower s)"
  by (simp add: plain_def list_all_iff lower_meta)

lemma iLike_contains:
  "plain s \<Longrightarrow> op_iLike v (''%'' @ s @ ''%'') = ci_contains s v"
  using like_contains [OF plain_lower, of s] lower_meta(1) [of "CHR ''%''"]
  by (cases v) (simp_all add: op_iLike_def ci_contains_def)

subsection \<open>Filters and order\<close>

lemma attr_project:
  "k \<in> set tableAttributes \<Longrightarrow>
   k \<notin> set [''refresh_token'', ''email_confirmation_otp'', ''email_confirmation_otp_expires''] \<Longrightarrow>
   attr (project r) k = attr r k"
  by (simp add: attr_def project_def restrict_map_def)

lemma attr_project_listed:
  "attr (project r) ''first_name'' = attr r ''first_name''"
  "attr (project r) ''last_name'' = attr r ''last_name''"
  "attr (project r) ''email'' = attr r ''email''"
  "attr (project r) ''role'' = attr r ''role''"
  "attr (project r) ''created_at'' = attr r ''created_at''"
  by (simp_all add: attr_project tableAttributes_def)

lemma created_at_project: "created_at (project r) = created_at r"
  by (simp add: created_at_def attr_project_listed)

lemma newest_first_project: "newest_first (project a) (project b) = newest_first a b"
  by (simp add: newest_first_def created_at_project)

lemma order_newest_first: "sorted_wrt newest_first (order_created_at_desc rs)"
proof -
  have "sorted (map (\<lambda>r. map_option uminus (created_at r)) (order_created_at_desc rs))"
    unfolding order_created_at_desc_def by (rule sorted_sort_key)
  then have "sorted_wrt (\<lambda>a b. map_option uminus (created_at a) \<le> map_option uminus (created_at b))
               (order_created_at_desc rs)"
    by (simp add: sorted_wrt_map)
  then show ?thesis
    by (rule sorted_wrt_mono_rel [rotated]) (auto simp: newest_first_def)
qed

lemma page_newest_first:
  "sorted_wrt newest_first (map project (take n (drop m (order_created_at_desc rs))))"
proof -
  have "sorted_wrt newest_first (take n (drop m (order_created_at_desc rs)))"
    by (intro sorted_wrt_take sorted_wrt_drop order_newest_first)
  then show ?thesis
    by (simp add: sorted_wrt_map newest_first_project)
qed

lemma order_mset: "mset (order_created_at_desc rs) = mset rs"
  by (simp add: order_created_at_desc_def)

lemma iLike_contains_Cons:
  "plain s \<Longrightarrow> op_iLike v (CHR ''%'' # s @ ''%'') = ci_contains s v"
  using iLike_contains [of s v] by simp

lemma whereClause_none:
  "s = [] \<Longrightarrow> ro \<in> {None, Some []} \<Longrightarrow> filter (whereClause s ro) tbl = tbl"
  by (auto simp: whereClause_def)

text \<open>
  Claim C6, amended. Every listing is in descending order of creation time. With an empty
  search term and a null or empty role, the listing is the requested page (from
  \<open>offset\<close>, at most \<open>limit\<close> rows) of all users in that order, and the total is the
  number of all users. With a non-empty role, every returned user has exactly that role.
  With a non-empty search term that has none of the pattern characters \<^verbatim>\<open>%\<close>, \<^verbatim>\<open>_\<close> and
  backslash, every returned user has the term, letter case aside, as a substring of the
  first name, the last name or the e-mail address.
\<close>

theorem getAllUsers_filters:
  assumes "getAllUsers tbl q = Inr res"
  shows "sorted_wrt newest_first (users res)
     \<and> (search q \<in> {None, Some []} \<and> role q \<in> {None, Some []} \<longrightarrow>
          totalCount res = length tbl \<and>
          (\<exists>lim off all.
             parseInt (case limit q of None \<Rightarrow> N 10 | Some v \<Rightarrow> v) = Some lim \<and>
             parseInt (case offset q of None \<Rightarrow> N 0 | Some v \<Rightarrow> v) = Some off \<and>
             mset all = mset tbl \<and> sorted_wrt newest_first all \<and>
             users res = map project (take (nat lim) (drop (nat off) all))))
     \<and> (\<forall>ro. role q = Some ro \<and> ro \<noteq> [] \<longrightarrow>
          (\<forall>u \<in> set (users res). attr u ''role'' = Str ro))
     \<and> (\<forall>s. search q = Some s \<and> s \<noteq> [] \<and> plain s \<longrightarrow>
          (\<forall>u \<in> set (users res).
             ci_contains s (attr u ''first_name'') \<or> ci_contains s (attr u ''last_name'') \<or>
             ci_contains s (attr u ''email'')))"
proof (intro conjI allI impI ballI)
  from getAllUsers_Inr [OF assms] obtain lim off where
    l: "parseInt (case limit q of None \<Rightarrow> N 10 | Some v \<Rightarrow> v) = Some lim"
    and o: "parseInt (case offset q of None \<Rightarrow> N 0 | Some v \<Rightarrow> v) = Some off"
    and u: "users res = map project (take (nat lim) (drop (nat off)
              (order_created_at_desc
                 (filter (whereClause (case search q of None \<Rightarrow> [] | Some s \<Rightarrow> s) (role q)) tbl))))"
    and c: "totalCount res =
              length (filter (whereClause (case search q of None \<Rightarrow> [] | Some s \<Rightarrow> s) (role q)) tbl)"
    by blast
  show "sorted_wrt newest_first (users res)"
    unfolding u by (rule page_newest_first)
  {
    assume h: "search q \<in> {None, Some []} \<and> role q \<in> {None, Some []}"
    then have f: "filter (whereClause (case search q of None \<Rightarrow> [] | Some s \<Rightarrow> s) (role q)) tbl = tbl"
      by (intro whereClause_none) auto
    show "totalCount res = length tbl"
      using c f by simp
    show "\<exists>lim off all.
             parseInt (case limit q of None \<Rightarrow> N 10 | Some v \<Rightarrow> v) = Some lim \<and>
             parseInt (case offset q of None \<Rightarrow> N 0 | Some v \<Rightarrow> v) = Some off \<and>
             mset all = mset tbl \<and> sorted_wrt newest_first all \<and>
             users res = map project (take (nat lim) (drop (nat off) all))"
      using l o u order_mset [of tbl] order_newest_first [of tbl] unfolding f by blast
  }
next
  fix ro u
  assume h: "role q = Some ro \<and> ro \<noteq> []" and "u \<in> set (users res)"
  with users_projected [OF assms] obtain r where
    "u = project r" "whereClause (case search q of None \<Rightarrow> [] | Some s \<Rightarrow> s) (role q) r"
    by blast
  with h show "attr u ''role'' = Str ro"
    by (simp add: whereClause_def attr_project_listed)
next
  fix s u
  assume h: "search q = Some s \<and> s \<noteq> [] \<and> plain s" and "u \<in> set (users res)"
  with users_projected [OF assms] obtain r where
    "u = project r" "whereClause (case search q of None \<Rightarrow> [] | Some s \<Rightarrow> s) (role q) r"
    by blast
  with h show "ci_contains s (attr u ''first_name'') \<or> ci_contains s (attr u ''last_name'') \<or>
             ci_contains s (attr u ''email'')"
    by (simp add: whereClause_def attr_project_listed iLike_contains_Cons)
qed

lemma where_samples:
  "\<not> whereClause [] (Some ''admin'') pending_user"
  "\<not> whereClause [] (Some ''admin'') second_user"
  "whereClause [] (Some ''admin'') third_user"
  "\<not> whereClause ''C@B'' None pending_user"
  "\<not> whereClause ''C@B'' None second_user"
  "whereClause ''C@B'' None third_user"
  "whereClause [] (Some '''') pending_user"
  "whereClause ''_'' None pending_user"
  by code_simp+

lemma getAllUsers_default_three:
  "getAllUsers [pending_user, second_user, third_user] default_query
     = Inr \<lparr>users = map project [third_user, second_user, pending_user], totalCount = 3,
            nextOffset = None\<rparr>"
  by (simp add: getAllUsers_def default_query_def parseInt_def UserModel_findAndCountAll_def
        whereClause_def order_three project_def js_plus_def js_less_def)

lemma getAllUsers_admin:
  "getAllUsers [pending_user, second_user, third_user] admin_query
     = Inr \<lparr>users = [project third_user], totalCount = 1, nextOffset = None\<rparr>"
  by (simp add: getAllUsers_def admin_query_def parseInt_def UserModel_findAndCountAll_def
        where_samples sort_single project_def js_plus_def js_less_def)

lemma getAllUsers_search:
  "getAllUsers [pending_user, second_user, third_user] search_query
     = Inr \<lparr>users = [project third_user], totalCount = 1, nextOffset = None\<rparr>"
  by (simp add: getAllUsers_def search_query_def parseInt_def UserModel_findAndCountAll_def
        where_samples sort_single project_def js_plus_def js_less_def)

theorem getAllUsers_filters_witness:
  "getAllUsers [pending_user, second_user, third_user] default_query
     = Inr \<lparr>users = map project [third_user, second_user, pending_user], totalCount = 3,
            nextOffset = None\<rparr>
   \<and> sorted_wrt newest_first (map project [third_user, second_user, pending_user])
   \<and> getAllUsers [pending_user, second_user, third_user] admin_query
     = Inr \<lparr>users = [project third_user], totalCount = 1, nextOffset = None\<rparr>
   \<and> attr (project third_user) ''role'' = Str ''admin''
   \<and> getAllUsers [pending_user, second_user, third_user] search_query
     = Inr \<lparr>users = [project third_user], totalCount = 1, nextOffset = None\<rparr>
   \<and> plain ''C@B''
   \<and> (ci_contains ''C@B'' (attr (project third_user) ''first_name'') \<or>
      ci_contains ''C@B'' (attr (project third_user) ''last_name'') \<or>
      ci_contains ''C@B'' (attr (project third_user) ''email''))"
proof -
  have p: "plain ''C@B''"
    by (simp add: plain_def)
  from getAllUsers_filters [OF getAllUsers_default_three]
  have 1: "sorted_wrt newest_first (map project [third_user, second_user, pending_user])"
    by simp
  from getAllUsers_filters [OF getAllUsers_admin]
  have 2: "attr (project third_user) ''role'' = Str ''admin''"
    by (simp add: admin_query_def)
  from getAllUsers_filters [OF getAllUsers_search] p
  have 3: "ci_contains ''C@B'' (attr (project third_user) ''first_name'') \<or>
      ci_contains ''C@B'' (attr (project third_user) ''last_name'') \<or>
      ci_contains ''C@B'' (attr (project third_user) ''email'')"
    by (simp add: search_query_def)
  from getAllUsers_default_three getAllUsers_admin getAllUsers_search p 1 2 3
  show ?thesis by simp
qed

lemma getAllUsers_empty_role:
  "getAllUsers [pending_user] empty_role_query
     = Inr \<lparr>users = [project pending_user], totalCount = 1, nextOffset = None\<rparr>"
  by (simp add: getAllUsers_def empty_role_query_def parseInt_def UserModel_findAndCountAll_def
        where_samples sort_single project_def js_plus_def js_less_def)

lemma getAllUsers_underscore:
  "getAllUsers [pending_user] underscore_query
     = Inr \<lparr>users = [project pending_user], totalCount = 1, nextOffset = None\<rparr>"
  by (simp add: getAllUsers_def underscore_query_def parseInt_def UserModel_findAndCountAll_def
        where_samples sort_single project_def js_plus_def js_less_def)

lemma pending_user_names:
  "attr (project pending_user) ''role'' = Str ''user''"
  "attr (project pending_user) ''first_name'' = Str ''Ann''"
  "attr (project pending_user) ''last_name'' = Str ''Lee''"
  "attr (project pending_user) ''email'' = Str ''a@b.com''"
  by (simp_all add: attr_project_listed) (simp_all add: attr_def pending_user_def)

lemma no_underscore:
  "\<not> ci_contains ''_'' (Str ''Ann'')" "\<not> ci_contains ''_'' (Str ''Lee'')"
  "\<not> ci_contains ''_'' (Str ''a@b.com'')"
  by code_simp+

text \<open>
  Claim C6 as stated fails. The role \<^verbatim>\<open>""\<close> is not null, yet it adds no filter: the
  listing returns a user whose role is \<open>user\<close>. The search term \<^verbatim>\<open>_\<close> is a pattern for
  any one character: the listing returns a user with no underscore in either name or in the
  e-mail address.
\<close>

theorem getAllUsers_filters_not_as_stated:
  "getAllUsers [pending_user] empty_role_query
     = Inr \<lparr>users = [project pending_user], totalCount = 1, nextOffset = None\<rparr>
   \<and> role empty_role_query = Some ''''
   \<and> attr (project pending_user) ''role'' = Str ''user''
   \<and> getAllUsers [pending_user] underscore_query
     = Inr \<lparr>users = [project pending_user], totalCount = 1, nextOffset = None\<rparr>
   \<and> search underscore_query = Some ''_''
   \<and> \<not> ci_contains ''_'' (attr (project pending_user) ''first_name'')
   \<and> \<not> ci_contains ''_'' (attr (project pending_user) ''last_name'')
   \<and> \<not> ci_contains ''_'' (attr (project pending_user) ''email'')"
  by (intro conjI getAllUsers_empty_role getAllUsers_underscore)
     (simp_all add: pending_user_names no_underscore empty_role_query_def underscore_query_def)

section \<open>Revoking the refresh token\<close>

text \<open>
  Claim C9. \<open>revokeRefreshToken\<close> passes the key \<^verbatim>\<open>refreshToken\<close>, which is not an
  attribute of the table (the attribute is \<^verbatim>\<open>refresh_token\<close>), so the update writes nothing:
  the account with id 1 keeps its refresh token \<open>tok\<close>.
\<close>

theorem revokeRefreshToken_writes_nothing:
  "revokeRefreshToken [pending_user] (Num 1) = (Inr 0, [pending_user])
   \<and> attr pending_user ''id'' = Num 1
   \<and> attr pending_user ''refresh_token'' = Str ''tok''"
  by (simp add: revokeRefreshToken_def UserModel_update_def known_def tableAttributes_def
        attr_def pending_user_def)

section \<open>Deleting an account\<close>

text \<open>
  Claim C10. For an id that no row carries, \<open>deleteUser\<close> completes normally, reports
  zero deleted rows and leaves the table as it was; no error is raised on this path.
\<close>

theorem deleteUser_absent:
  "\<forall>r \<in> set tbl. attr r ''id'' \<noteq> i \<Longrightarrow> deleteUser tbl i = (Inr 0, tbl)"
  by (induction tbl) (auto simp: deleteUser_def UserModel_destroy_def)

theorem deleteUser_absent_witness:
  "attr pending_user ''id'' \<noteq> Num 7 \<and> deleteUser [pending_user] (Num 7) = (Inr 0, [pending_user])"
proof -
  have h: "\<forall>r \<in> set [pending_user]. attr r ''id'' \<noteq> Num 7"
    by (simp add: attr_def pending_user_def)
  from deleteUser_absent [OF h] h show ?thesis by simp
qed

end
